theory Spec2Isabelle
  imports Main
begin

section \<open>Build orchestration (FirmwareService): data model\<close>

text \<open>
  The enumerations of \<^verbatim>\<open>models/enum\<close>. The two \<^verbatim>\<open>switch\<close> statements of
  \<^verbatim>\<open>buildFlashFirmware\<close> and the one of \<^verbatim>\<open>validateFirmwareVersionData\<close> have a
  throwing \<^verbatim>\<open>default\<close> arm, so a value outside the enumeration is part of the model
  (\<open>UnknownSource\<close>, \<open>UnknownMode\<close>): at run time the field holds whatever the
  caller sent.
\<close>

datatype FirmwareSource =
  GitTag | GitBranch | GitCommit | Local | GitPullRequest | UnknownSource string

datatype BuildJobType = Build | BuildAndFlash

datatype UserDefinesMode = Manual | UserInterface | UnknownMode string

datatype BuildFirmwareErrorType =
  GenericError | PythonDependencyError | PlatformioDependencyError
  | GitDependencyError | BuildError | FlashError

datatype BuildProgressNotificationType = Info | Error

datatype BuildFirmwareStep =
  VERIFYING_BUILD_SYSTEM | DOWNLOADING_FIRMWARE | BUILDING_USER_DEFINES
  | BUILDING_FIRMWARE | FLASHING_FIRMWARE

text \<open>
  An error object is a JavaScript \<^verbatim>\<open>Error\<close> or \<^verbatim>\<open>TypeError\<close> with its message; in a
  template literal it prints as its name, a colon and the message.
\<close>

datatype exn = JsError string | TypeError string

fun toString :: "exn \<Rightarrow> string" where
  "toString (JsError m) = ''Error: '' @ m"
| "toString (TypeError m) = ''TypeError: '' @ m"

text \<open>
  What a collaborator throws, or rejects its promise with, is any JavaScript value: an
  error object, \<^verbatim>\<open>undefined\<close>, \<^verbatim>\<open>null\<close>, or another value, given by what a template
  literal prints for it. Reading a property of \<^verbatim>\<open>undefined\<close> or \<^verbatim>\<open>null\<close> throws a
  \<^verbatim>\<open>TypeError\<close>; reading one of any other value does not.
\<close>

datatype thrown = ErrorObject exn | Undefined | Null | Value string

fun toText :: "thrown \<Rightarrow> string" where
  "toText (ErrorObject e) = toString e"
| "toText Undefined = ''undefined''"
| "toText Null = ''null''"
| "toText (Value v) = v"

fun nullish :: "thrown \<Rightarrow> bool" where
  "nullish Undefined = True"
| "nullish Null = True"
| "nullish _ = False"

type_synonym DeviceTarget = string
type_synonym UserDefineKey = string

record UserDefine =
  key :: UserDefineKey
  enabled :: bool
  val :: string

record FirmwareVersionData =
  source :: FirmwareSource
  gitTag :: string
  gitBranch :: string
  gitCommit :: string
  localPath :: string

record BuildFlashFirmwareParams =
  type :: BuildJobType
  firmware :: FirmwareVersionData
  target :: DeviceTarget
  userDefinesMode :: UserDefinesMode
  userDefines :: "UserDefine list"
  userDefinesTxt :: string

record GitRepo =
  url :: string
  cloneUrl :: string
  owner :: string
  repositoryName :: string

text \<open>
  \<^verbatim>\<open>new BuildFlashFirmwareResult(success, message?, errorType?, firmwareBinPath?)\<close>:
  an argument left out is \<open>None\<close>.
\<close>

record BuildFlashFirmwareResult =
  success :: bool
  message :: "string option"
  errorType :: "BuildFirmwareErrorType option"
  firmwareBinPath :: "string option"

text \<open>What a toolchain command reports: \<^verbatim>\<open>{success, stdout, stderr}\<close>.\<close>

record CommandResult =
  ok :: bool
  stdout :: string
  stderr :: string

record CompatibilityResult =
  compatible :: bool
  incompatibleKeys :: "UserDefineKey list"

subsection \<open>The single-flight guard\<close>

text \<open>
  Modelled from the spec: the class \<^verbatim>\<open>library/Mutex\<close> is not among the source files.
  Section 4.1: \<^verbatim>\<open>tryAcquire() -> bool\<close> is non-blocking and returns false if the guard
  is already held; releasing an unheld guard is a programming error, so \<open>unlock\<close> of an
  unheld guard throws.
\<close>

record Mutex =
  locked :: bool

definition isLocked :: "Mutex \<Rightarrow> bool" where
  "isLocked m = locked m"

definition tryLock :: "Mutex \<Rightarrow> bool \<times> Mutex" where
  "tryLock m = (if locked m then (False, m) else (True, m\<lparr>locked := True\<rparr>))"

definition unlock :: "Mutex \<Rightarrow> exn + Mutex" where
  "unlock m = (if locked m then Inr (m\<lparr>locked := False\<rparr>)
               else Inl (JsError ''mutex is not locked''))"

subsection \<open>Collaborators and the history of their calls\<close>

text \<open>
  Every call the pipeline makes on a collaborator (the event bus, Platformio, the
  firmware downloader, the firmware builder) is an event, with the arguments the
  pipeline passed; the service keeps the history of the events of all its runs, in
  order. \<open>Raised e\<close> records that \<open>e\<close> was thrown inside the \<^verbatim>\<open>try\<close> block: by
  the call before it, by a \<^verbatim>\<open>throw\<close> statement of the pipeline, or by the inner
  \<^verbatim>\<open>catch\<close> reading a property of \<^verbatim>\<open>undefined\<close> or \<^verbatim>\<open>null\<close>.
\<close>

datatype event =
    BuildProgressNotification BuildProgressNotificationType BuildFirmwareStep
  | BuildLogsUpdate string
  | CheckPython
  | CheckCore
  | Install
  | FindGitExecutable string
  | CheckoutTag string string
  | CheckDefaultUserDefinesCompatibilityAtPath string "UserDefineKey list"
  | GetPlatformioState
  | BuilderBuild DeviceTarget string string
  | GetFirmwareBinPath DeviceTarget string
  | BuilderFlash DeviceTarget string
  | Raised thrown

text \<open>
  The collaborators are not among the source files; the pipeline is verified for every
  behaviour they can have. Each operation either returns its result (\<open>Inr\<close>) or
  throws (\<open>Inl\<close>). The three streaming operations first pass chunks of output to
  the callback they are given. \<open>sourceValue\<close> and \<open>modeValue\<close> are the strings
  of the enumeration members, as a template literal prints them. \<open>cannotRead v p\<close>
  is the message of the \<^verbatim>\<open>TypeError\<close> that the runtime throws when the property
  \<open>p\<close> is read of \<open>v\<close>, which is \<^verbatim>\<open>undefined\<close> or \<^verbatim>\<open>null\<close>; its wording
  depends on the version of the runtime.
\<close>

record Collaborators =
  publishProgress ::
    "BuildProgressNotificationType \<Rightarrow> BuildFirmwareStep \<Rightarrow> thrown + unit"
  publishLogs :: "string \<Rightarrow> thrown + unit"
  checkPython :: "thrown + CommandResult"
  checkCore :: "thrown + CommandResult"
  install :: "string list \<times> (thrown + CommandResult)"
  findGitExecutable :: "string \<Rightarrow> thrown + string"
  checkoutTag :: "string \<Rightarrow> string \<Rightarrow> string \<Rightarrow> string \<Rightarrow> thrown + string"
  checkDefaultUserDefinesCompatibilityAtPath ::
    "string \<Rightarrow> UserDefineKey list \<Rightarrow> thrown + CompatibilityResult"
  userDefinesTxtBuild :: "UserDefine list \<Rightarrow> thrown + string"
  getPlatformioState :: "thrown + string"
  build :: "DeviceTarget \<Rightarrow> string \<Rightarrow> string \<Rightarrow> string list \<times> (thrown + CommandResult)"
  getFirmwareBinPath :: "DeviceTarget \<Rightarrow> string \<Rightarrow> thrown + string"
  flash :: "DeviceTarget \<Rightarrow> string \<Rightarrow> string list \<times> (thrown + CommandResult)"
  sourceValue :: "FirmwareSource \<Rightarrow> string"
  modeValue :: "UserDefinesMode \<Rightarrow> string"
  cannotRead :: "thrown \<Rightarrow> string \<Rightarrow> string"

record FirmwareService =
  PATH :: string
  firmwaresPath :: string
  mutex :: Mutex
  history :: "event list"

subsection \<open>Statements: normal completion, \<^verbatim>\<open>return\<close>, \<^verbatim>\<open>throw\<close>\<close>

text \<open>
  A part of the pipeline completes normally with a value, returns a result from
  \<^verbatim>\<open>buildFlashFirmware\<close>, or throws; with it come the events it caused. The pipeline
  reads \<^verbatim>\<open>this.PATH\<close> and \<^verbatim>\<open>this.firmwaresPath\<close> and never touches \<^verbatim>\<open>this.mutex\<close>
  between the \<^verbatim>\<open>tryLock\<close> and the \<^verbatim>\<open>unlock\<close>.
\<close>

datatype 'a completion = Normal 'a | Return BuildFlashFirmwareResult | Throw thrown

type_synonym 'a step = "'a completion \<times> event list"

definition andThen :: "'a step \<Rightarrow> ('a \<Rightarrow> 'b step) \<Rightarrow> 'b step" where
  "andThen m f =
     (case m of
        (Normal v, evs) \<Rightarrow> (case f v of (c, evs') \<Rightarrow> (c, evs @ evs'))
      | (Return r, evs) \<Rightarrow> (Return r, evs)
      | (Throw e, evs) \<Rightarrow> (Throw e, evs))"

definition pure :: "'a \<Rightarrow> 'a step" where
  "pure v = (Normal v, [])"

definition returnResult :: "BuildFlashFirmwareResult \<Rightarrow> 'a step" where
  "returnResult r = (Return r, [])"

definition throw :: "thrown \<Rightarrow> 'a step" where
  "throw e = (Throw e, [Raised e])"

text \<open>An awaited call on a collaborator: the call, then its outcome.\<close>

definition await :: "event \<Rightarrow> thrown + 'a \<Rightarrow> 'a step" where
  "await call outcome =
     (case outcome of
        Inr v \<Rightarrow> (Normal v, [call])
      | Inl e \<Rightarrow> (Throw e, [call, Raised e]))"

text \<open>
  A streaming call: every chunk of output goes through the callback
  \<^verbatim>\<open>(output) => { this.updateLogs(output); }\<close>, which publishes it without awaiting, so
  that a failed publication never reaches the pipeline.
\<close>

definition awaitStreaming :: "event \<Rightarrow> string list \<times> (thrown + 'a) \<Rightarrow> 'a step" where
  "awaitStreaming call outcome =
     (case outcome of
        (chunks, Inr v) \<Rightarrow> (Normal v, call # map BuildLogsUpdate chunks)
      | (chunks, Inl e) \<Rightarrow> (Throw e, call # map BuildLogsUpdate chunks @ [Raised e]))"

definition updateProgress ::
  "Collaborators \<Rightarrow> BuildProgressNotificationType \<Rightarrow> BuildFirmwareStep \<Rightarrow> unit step" where
  "updateProgress env ty st = await (BuildProgressNotification ty st) (publishProgress env ty st)"

definition updateLogs :: "Collaborators \<Rightarrow> string \<Rightarrow> unit step" where
  "updateLogs env data = await (BuildLogsUpdate data) (publishLogs env data)"

definition failure :: "string \<Rightarrow> BuildFirmwareErrorType \<Rightarrow> BuildFlashFirmwareResult" where
  "failure msg ty =
     \<lparr>success = False, message = Some msg, errorType = Some ty, firmwareBinPath = None\<rparr>"

text \<open>\<^verbatim>\<open>`${array}`\<close> joins the elements with commas.\<close>

fun joinComma :: "string list \<Rightarrow> string" where
  "joinComma [] = []"
| "joinComma [x] = x"
| "joinComma (x # y # ys) = x @ '','' @ joinComma (y # ys)"

section \<open>The pipeline of \<^verbatim>\<open>buildFlashFirmware\<close>\<close>

text \<open>
  The body of the \<^verbatim>\<open>try\<close> block, cut into its consecutive parts. Calls on the logger
  are left out: they publish nothing and are taken not to throw. The logger is there
  (the server builds the service with one), so the arguments of
  \<^verbatim>\<open>this.logger?.error(...)\<close> are evaluated: the two handlers read \<^verbatim>\<open>e.stack\<close> and
  \<^verbatim>\<open>e.trace\<close> of the value they caught.
\<close>

definition readProperty :: "Collaborators \<Rightarrow> thrown \<Rightarrow> string \<Rightarrow> thrown + unit" where
  "readProperty env v property =
     (if nullish v then Inl (ErrorObject (TypeError (cannotRead env v property)))
      else Inr ())"

text \<open>Lines 159 to 201: progress event, Python check, Platformio check and install.\<close>

definition verifyBuildSystem :: "Collaborators \<Rightarrow> unit step" where
  "verifyBuildSystem env =
     andThen (updateProgress env Info VERIFYING_BUILD_SYSTEM) (\<lambda>_.
     andThen (await CheckPython (checkPython env)) (\<lambda>pythonCheck.
     if \<not> ok pythonCheck then
       returnResult (failure
         (''Python dependency error: '' @ stderr pythonCheck @ '' '' @ stdout pythonCheck)
         PythonDependencyError)
     else
     andThen (await CheckCore (checkCore env)) (\<lambda>coreCheck.
     if \<not> ok coreCheck then
       andThen (updateLogs env
         ''Failed to find Platformio on your computer. Trying to install it automatically...'')
         (\<lambda>_.
       andThen (awaitStreaming Install (install env)) (\<lambda>platformioInstallResult.
       if \<not> ok platformioInstallResult then
         returnResult (failure
           (''platformio error: '' @ stderr platformioInstallResult @ '' ''
              @ stdout platformioInstallResult)
           PlatformioDependencyError)
       else pure ()))
     else pure ())))"

text \<open>
  Lines 203 to 219: the git executable is looked up on \<^verbatim>\<open>this.PATH\<close>, whatever the
  firmware source is. The inner \<^verbatim>\<open>catch\<close> first reads \<^verbatim>\<open>e.stack\<close> for the logger,
  which throws when \<open>e\<close> is \<^verbatim>\<open>undefined\<close> or \<^verbatim>\<open>null\<close>, and then turns the failed
  lookup into a \<open>GitDependencyError\<close> result.
\<close>

definition locateGit :: "Collaborators \<Rightarrow> string \<Rightarrow> string step" where
  "locateGit env path =
     (case await (FindGitExecutable path) (findGitExecutable env path) of
        (Throw e, evs) \<Rightarrow>
          (case readProperty env e ''stack'' of
             Inl typeError \<Rightarrow> (Throw typeError, evs @ [Raised typeError])
           | Inr _ \<Rightarrow> (Return (failure (toText e) GitDependencyError), evs))
      | other \<Rightarrow> other)"

text \<open>
  Lines 221 to 263: progress event, then the \<^verbatim>\<open>switch\<close> on the firmware source. The
  downloader is built from \<^verbatim>\<open>this.firmwaresPath\<close> and the git path.
\<close>

definition resolveSource ::
  "Collaborators \<Rightarrow> string \<Rightarrow> FirmwareVersionData \<Rightarrow> GitRepo \<Rightarrow> string \<Rightarrow> string step" where
  "resolveSource env baseDirectory fw gitRepo gitPath =
     (case source fw of
        GitTag \<Rightarrow>
          await (CheckoutTag (url gitRepo) (gitTag fw))
            (checkoutTag env baseDirectory gitPath (url gitRepo) (gitTag fw))
      | GitBranch \<Rightarrow>
          await (CheckoutTag (url gitRepo) (gitBranch fw))
            (checkoutTag env baseDirectory gitPath (url gitRepo) (gitBranch fw))
      | GitCommit \<Rightarrow>
          await (CheckoutTag (url gitRepo) (gitTag fw))
            (checkoutTag env baseDirectory gitPath (url gitRepo) (gitTag fw))
      | Local \<Rightarrow> pure (localPath fw)
      | _ \<Rightarrow>
          throw (ErrorObject
            (JsError (''unsupported firmware source: '' @ sourceValue env (source fw)))))"

definition downloadFirmware ::
  "Collaborators \<Rightarrow> string \<Rightarrow> BuildFlashFirmwareParams \<Rightarrow> GitRepo \<Rightarrow> string
     \<Rightarrow> string step" where
  "downloadFirmware env baseDirectory params gitRepo gitPath =
     andThen (updateProgress env Info DOWNLOADING_FIRMWARE) (\<lambda>_.
     resolveSource env baseDirectory (firmware params) gitRepo gitPath)"

text \<open>
  Lines 265 to 301: progress event, compatibility check of the enabled keys in
  \<open>UserInterface\<close> mode, then the \<^verbatim>\<open>switch\<close> on the mode.
\<close>

definition checkCompatibility ::
  "Collaborators \<Rightarrow> BuildFlashFirmwareParams \<Rightarrow> string \<Rightarrow> unit step" where
  "checkCompatibility env params firmwarePath =
     (if userDefinesMode params = UserInterface then
        andThen
          (await
            (CheckDefaultUserDefinesCompatibilityAtPath firmwarePath
               (map key (filter enabled (userDefines params))))
            (checkDefaultUserDefinesCompatibilityAtPath env firmwarePath
               (map key (filter enabled (userDefines params)))))
          (\<lambda>compatCheck.
        if \<not> compatible compatCheck then
          returnResult (failure
            (''Downloaded firmware is not compatible with the following user defines: ''
               @ joinComma (incompatibleKeys compatCheck))
            BuildError)
        else pure ())
      else pure ())"

definition materializeUserDefines ::
  "Collaborators \<Rightarrow> BuildFlashFirmwareParams \<Rightarrow> string step" where
  "materializeUserDefines env params =
     (case userDefinesMode params of
        Manual \<Rightarrow> pure (userDefinesTxt params)
      | UserInterface \<Rightarrow>
          (case userDefinesTxtBuild env (userDefines params) of
             Inr txt \<Rightarrow> pure txt
           | Inl e \<Rightarrow> throw e)
      | _ \<Rightarrow>
          throw (ErrorObject (JsError (''unsupported user defines mode: ''
                                         @ modeValue env (userDefinesMode params)))))"

definition buildUserDefines ::
  "Collaborators \<Rightarrow> BuildFlashFirmwareParams \<Rightarrow> string \<Rightarrow> string step" where
  "buildUserDefines env params firmwarePath =
     andThen (updateProgress env Info BUILDING_USER_DEFINES) (\<lambda>_.
     andThen (checkCompatibility env params firmwarePath) (\<lambda>_.
     materializeUserDefines env params))"

text \<open>Lines 303 to 330: Platformio state, progress event, compilation.\<close>

definition compileFirmware ::
  "Collaborators \<Rightarrow> BuildFlashFirmwareParams \<Rightarrow> string \<Rightarrow> string \<Rightarrow> unit step" where
  "compileFirmware env params userDefs firmwarePath =
     andThen (await GetPlatformioState (getPlatformioState env)) (\<lambda>platformioStateJson.
     andThen (updateProgress env Info BUILDING_FIRMWARE) (\<lambda>_.
     andThen
       (awaitStreaming (BuilderBuild (target params) userDefs firmwarePath)
          (build env (target params) userDefs firmwarePath)) (\<lambda>compileResult.
     if \<not> ok compileResult then
       returnResult (failure (stderr compileResult) BuildError)
     else pure ())))"

text \<open>Lines 332 to 369: the binary path of a build-only job, else flashing.\<close>

definition finishJob ::
  "Collaborators \<Rightarrow> BuildFlashFirmwareParams \<Rightarrow> string \<Rightarrow> unit step" where
  "finishJob env params firmwarePath =
     (if type params = Build then
        andThen
          (await (GetFirmwareBinPath (target params) firmwarePath)
             (getFirmwareBinPath env (target params) firmwarePath)) (\<lambda>firmwareBinPath.
        returnResult
          \<lparr>success = True, message = None, errorType = None,
           firmwareBinPath = Some firmwareBinPath\<rparr>)
      else
        andThen (updateProgress env Info FLASHING_FIRMWARE) (\<lambda>_.
        andThen
          (awaitStreaming (BuilderFlash (target params) firmwarePath)
             (flash env (target params) firmwarePath)) (\<lambda>flashResult.
        if \<not> ok flashResult then
          returnResult (failure (stderr flashResult) FlashError)
        else
          returnResult
            \<lparr>success = True, message = None, errorType = None, firmwareBinPath = None\<rparr>)))"

definition tryBlock ::
  "Collaborators \<Rightarrow> string \<Rightarrow> string \<Rightarrow> BuildFlashFirmwareParams \<Rightarrow> GitRepo
     \<Rightarrow> unit step" where
  "tryBlock env path baseDirectory params gitRepo =
     andThen (verifyBuildSystem env) (\<lambda>_.
     andThen (locateGit env path) (\<lambda>gitPath.
     andThen (downloadFirmware env baseDirectory params gitRepo gitPath) (\<lambda>firmwarePath.
     andThen (buildUserDefines env params firmwarePath) (\<lambda>userDefs.
     andThen (compileFirmware env params userDefs firmwarePath) (\<lambda>_.
     finishJob env params firmwarePath)))))"

text \<open>
  Lines 139 to 382. A request that finds the guard held returns at once, before the
  \<^verbatim>\<open>try\<close>. Otherwise the guard is taken, the \<^verbatim>\<open>try\<close> block runs, the \<^verbatim>\<open>catch\<close>
  reads \<^verbatim>\<open>e.trace\<close> for the logger (lines 371 to 373), which throws when \<open>e\<close> is
  \<^verbatim>\<open>undefined\<close> or \<^verbatim>\<open>null\<close>, and then turns the thrown value into a
  \<open>GenericError\<close> result; the \<^verbatim>\<open>finally\<close> unlocks in every case. The outcome
  is \<open>Inl e\<close> when \<open>e\<close> escapes to the caller, and \<open>Inr None\<close> when the
  function ends without a \<^verbatim>\<open>return\<close>.
\<close>

definition busy :: BuildFlashFirmwareResult where
  "busy = failure ''there is another build/flash request in progress...'' GenericError"

definition catchAll ::
  "Collaborators \<Rightarrow> unit completion \<Rightarrow> thrown + BuildFlashFirmwareResult option" where
  "catchAll env c =
     (case c of
        Return r \<Rightarrow> Inr (Some r)
      | Throw e \<Rightarrow>
          (case readProperty env e ''trace'' of
             Inl typeError \<Rightarrow> Inl typeError
           | Inr _ \<Rightarrow> Inr (Some (failure (''Error: '' @ toText e) GenericError)))
      | Normal _ \<Rightarrow> Inr None)"

definition buildFlashFirmware ::
  "Collaborators \<Rightarrow> BuildFlashFirmwareParams \<Rightarrow> GitRepo \<Rightarrow> FirmwareService
     \<Rightarrow> (thrown + BuildFlashFirmwareResult option) \<times> FirmwareService" where
  "buildFlashFirmware env params gitRepo s =
     (if isLocked (mutex s) then (Inr (Some busy), s)
      else
        let s1 = s\<lparr>mutex := snd (tryLock (mutex s))\<rparr>;
            (c, evs) = tryBlock env (PATH s1) (firmwaresPath s1) params gitRepo;
            s2 = s1\<lparr>history := history s1 @ evs\<rparr>;
            outcome = catchAll env c
        in case unlock (mutex s2) of
             Inl e \<Rightarrow> (Inl (ErrorObject e), s2)
           | Inr m \<Rightarrow> (outcome, s2\<lparr>mutex := m\<rparr>))"

text \<open>The events of one call: what it added to the history.\<close>

definition emitted :: "FirmwareService \<Rightarrow> FirmwareService \<Rightarrow> event list" where
  "emitted s s' = drop (length (history s)) (history s')"

fun progressSteps :: "event list \<Rightarrow> BuildFirmwareStep list" where
  "progressSteps [] = []"
| "progressSteps (BuildProgressNotification ty st # evs) = st # progressSteps evs"
| "progressSteps (_ # evs) = progressSteps evs"

fun checkouts :: "event list \<Rightarrow> (string \<times> string) list" where
  "checkouts [] = []"
| "checkouts (CheckoutTag repositoryUrl ref # evs) = (repositoryUrl, ref) # checkouts evs"
| "checkouts (_ # evs) = checkouts evs"

text \<open>The firmware path that a call on the builder is given.\<close>

fun firmwarePathOf :: "event \<Rightarrow> string option" where
  "firmwarePathOf (CheckDefaultUserDefinesCompatibilityAtPath firmwarePath keys) = Some firmwarePath"
| "firmwarePathOf (BuilderBuild t userDefs firmwarePath) = Some firmwarePath"
| "firmwarePathOf (GetFirmwareBinPath t firmwarePath) = Some firmwarePath"
| "firmwarePathOf (BuilderFlash t firmwarePath) = Some firmwarePath"
| "firmwarePathOf _ = None"

text \<open>Log chunks and raised exceptions, as opposed to calls of the pipeline.\<close>

fun silent :: "event \<Rightarrow> bool" where
  "silent (BuildLogsUpdate chunk) = True"
| "silent (Raised e) = True"
| "silent _ = False"


subsection \<open>Example collaborators and requests\<close>

definition succeeded :: CommandResult where
  "succeeded = \<lparr>ok = True, stdout = ''done'', stderr = []\<rparr>"

definition workingToolchain :: Collaborators where
  "workingToolchain =
     \<lparr>publishProgress = (\<lambda>ty st. Inr ()),
      publishLogs = (\<lambda>chunk. Inr ()),
      checkPython = Inr succeeded,
      checkCore = Inr succeeded,
      install = ([], Inr succeeded),
      findGitExecutable = (\<lambda>path. Inr ''/usr/bin/git''),
      checkoutTag = (\<lambda>baseDirectory git repositoryUrl ref. Inr (baseDirectory @ ''/'' @ ref)),
      checkDefaultUserDefinesCompatibilityAtPath =
        (\<lambda>firmwarePath keys. Inr \<lparr>compatible = True, incompatibleKeys = []\<rparr>),
      userDefinesTxtBuild = (\<lambda>defs. Inr (concat (map (\<lambda>d. ''-D'' @ key d) (filter enabled defs)))),
      getPlatformioState = Inr ''{}'',
      build = (\<lambda>t userDefs firmwarePath. ([''compiling''], Inr succeeded)),
      getFirmwareBinPath = (\<lambda>t firmwarePath. Inr (firmwarePath @ ''/'' @ t @ ''.bin'')),
      flash = (\<lambda>t firmwarePath. ([''uploading''], Inr succeeded)),
      sourceValue = (\<lambda>src. case src of
          GitTag \<Rightarrow> ''GitTag'' | GitBranch \<Rightarrow> ''GitBranch'' | GitCommit \<Rightarrow> ''GitCommit''
        | Local \<Rightarrow> ''Local'' | GitPullRequest \<Rightarrow> ''GitPullRequest'' | UnknownSource v \<Rightarrow> v),
      modeValue = (\<lambda>mode. case mode of
          Manual \<Rightarrow> ''Manual'' | UserInterface \<Rightarrow> ''UserInterface'' | UnknownMode v \<Rightarrow> v),
      cannotRead = (\<lambda>v property.
        ''Cannot read properties of '' @ toText v @ '' (reading '' @ [CHR 0x27] @ property
          @ [CHR 0x27] @ '')'')\<rparr>"

definition failingCompiler :: Collaborators where
  "failingCompiler =
     workingToolchain\<lparr>build := (\<lambda>t userDefs firmwarePath.
       ([''compiling''], Inr \<lparr>ok = False, stdout = [], stderr = ''undefined reference''\<rparr>))\<rparr>"

definition gitMissing :: Collaborators where
  "gitMissing =
     workingToolchain
       \<lparr>findGitExecutable := (\<lambda>path. Inl (ErrorObject (JsError ''git not found'')))\<rparr>"


definition exampleRepo :: GitRepo where
  "exampleRepo =
     \<lparr>url = ''https://github.com/ExpressLRS/ExpressLRS'',
      cloneUrl = ''https://github.com/ExpressLRS/ExpressLRS.git'',
      owner = ''ExpressLRS'', repositoryName = ''ExpressLRS''\<rparr>"

definition idleService :: FirmwareService where
  "idleService =
     \<lparr>PATH = ''/usr/bin'', firmwaresPath = ''/firmwares'', mutex = \<lparr>locked = False\<rparr>,
      history = []\<rparr>"

definition busyService :: FirmwareService where
  "busyService = idleService\<lparr>mutex := \<lparr>locked = True\<rparr>\<rparr>"

definition tagRequest :: BuildFlashFirmwareParams where
  "tagRequest =
     \<lparr>type = Build,
      firmware = \<lparr>source = GitTag, gitTag = ''1.0.0'', gitBranch = [], gitCommit = [],
                  localPath = []\<rparr>,
      target = ''TARGET_A'', userDefinesMode = UserInterface,
      userDefines = [\<lparr>key = ''K'', enabled = True, val = ''5''\<rparr>], userDefinesTxt = []\<rparr>"

definition flashRequest :: BuildFlashFirmwareParams where
  "flashRequest = tagRequest\<lparr>type := BuildAndFlash\<rparr>"

definition commitRequest :: BuildFlashFirmwareParams where
  "commitRequest =
     tagRequest\<lparr>firmware :=
       \<lparr>source = GitCommit, gitTag = ''1.0.0'', gitBranch = [], gitCommit = ''0a1b2c3'',
        localPath = []\<rparr>\<rparr>"

definition localRequest :: BuildFlashFirmwareParams where
  "localRequest =
     tagRequest\<lparr>firmware :=
       \<lparr>source = Local, gitTag = [], gitBranch = [], gitCommit = [], localPath = ''/x''\<rparr>\<rparr>"


section \<open>Validation of the firmware version form (ConfiguratorView)\<close>

text \<open>
  \<^verbatim>\<open>FirmwareVersionDataInput\<close> has the fields of \<open>FirmwareVersionData\<close> and the pull
  request, which may be \<^verbatim>\<open>null\<close>; of a pull request the validation reads the head
  commit hash only. The repository descriptor of the input is not read by the validation
  and is left out.
\<close>

record PullRequest =
  headCommitHash :: string

record FirmwareVersionDataInput = FirmwareVersionData +
  gitPullRequest :: "PullRequest option"

text \<open>\<^verbatim>\<open>data.x && data.x.length > 0\<close> on a string: the empty string is falsy.\<close>

definition filled :: "string \<Rightarrow> bool" where
  "filled str \<longleftrightarrow> str \<noteq> [] \<and> length str > 0"

text \<open>
  Lines 72 to 108 of \<^verbatim>\<open>ConfiguratorView/index.tsx\<close>. The first argument prints a member
  of the enumeration for the message of the \<^verbatim>\<open>default\<close> arm.
\<close>

definition validateFirmwareVersionData ::
  "(FirmwareSource \<Rightarrow> string) \<Rightarrow> FirmwareVersionDataInput \<Rightarrow> exn + exn list" where
  "validateFirmwareVersionData printSource data =
     (case source data of
        Local \<Rightarrow>
          Inr (if \<not> filled (localPath data) then [JsError ''Local path is empty''] else [])
      | GitCommit \<Rightarrow>
          Inr (if \<not> filled (gitCommit data) then [JsError ''Git commit hash is empty''] else [])
      | GitBranch \<Rightarrow>
          Inr (if \<not> filled (gitBranch data) then [JsError ''Git branch is not selected'']
               else [])
      | GitTag \<Rightarrow>
          Inr (if \<not> filled (gitTag data) then [JsError ''Firmware release is not selected'']
               else [])
      | GitPullRequest \<Rightarrow>
          Inr (if \<not> (case gitPullRequest data of
                         None \<Rightarrow> False
                       | Some pr \<Rightarrow> length (headCommitHash pr) > 0)
               then [JsError ''Firmware Pull Request is not selected'']
               else [])
      | UnknownSource v \<Rightarrow>
          Inl (JsError (''unknown firmware data source: '' @ printSource (source data))))"

text \<open>
  In the words of the claim: the field that the selected variant requires, \<open>None\<close>
  when there is none to read (no pull request, or no known variant).
\<close>

definition requiredField :: "FirmwareVersionDataInput \<Rightarrow> string option" where
  "requiredField data =
     (case source data of
        Local \<Rightarrow> Some (localPath data)
      | GitCommit \<Rightarrow> Some (gitCommit data)
      | GitBranch \<Rightarrow> Some (gitBranch data)
      | GitTag \<Rightarrow> Some (gitTag data)
      | GitPullRequest \<Rightarrow> map_option headCommitHash (gitPullRequest data)
      | UnknownSource v \<Rightarrow> None)"

definition requiredFieldEmpty :: "FirmwareVersionDataInput \<Rightarrow> bool" where
  "requiredFieldEmpty data \<longleftrightarrow> requiredField data = None \<or> requiredField data = Some []"

section \<open>The device catalog (DeviceService)\<close>

text \<open>
  An entry of \<^verbatim>\<open>devices.json\<close>, and a target inside it. A property may be missing
  (\<open>None\<close>).
\<close>

record TargetJSON =
  json_name :: "string option"
  json_flashingMethod :: "string option"

record DeviceJSON =
  dev_name :: "string option"
  dev_category :: "string option"
  dev_targets :: "TargetJSON list option"
  dev_userDefines :: "string list option"
  dev_wikiUrl :: "string option"
  dev_deviceType :: "string option"

text \<open>
  The enumerations \<^verbatim>\<open>FlashingMethod\<close>, \<^verbatim>\<open>UserDefineKey\<close> and \<^verbatim>\<open>DeviceType\<close> are not
  among the source files: the own members of each are a parameter of the loader, a table
  from the name of a member to its value, a string or a number. An enumeration is a
  plain object, so that the lookup \<^verbatim>\<open>E[k as keyof typeof E]\<close> finds, where \<open>E\<close> has
  no own member \<open>k\<close>, what every object inherits from \<^verbatim>\<open>Object.prototype\<close> under
  that name: a function or an object, which is truthy.
\<close>

datatype enumValue = Str string | Num int

fun truthy :: "enumValue \<Rightarrow> bool" where
  "truthy (Str str) \<longleftrightarrow> str \<noteq> []"
| "truthy (Num n) \<longleftrightarrow> n \<noteq> 0"

datatype looked = Member enumValue | Inherited string

definition objectPrototypeMembers :: "string list" where
  "objectPrototypeMembers =
     [''constructor'', ''hasOwnProperty'', ''isPrototypeOf'', ''propertyIsEnumerable'',
      ''toLocaleString'', ''toString'', ''valueOf'', ''__proto__'', ''__defineGetter__'',
      ''__defineSetter__'', ''__lookupGetter__'', ''__lookupSetter__'']"

text \<open>\<^verbatim>\<open>Target\<close> and \<^verbatim>\<open>Device\<close>, holding what the lookups gave.\<close>

record Target =
  target_name :: string
  target_flashingMethod :: looked

record Device =
  device_id :: string
  device_name :: string
  device_category :: string
  device_targets :: "Target list"
  device_userDefines :: "looked list"
  device_wikiUrl :: "string option"
  device_deviceType :: looked

text \<open>\<^verbatim>\<open>!x\<close> on an optional string: missing or empty.\<close>

definition falsy :: "string option \<Rightarrow> bool" where
  "falsy x \<longleftrightarrow> (case x of None \<Rightarrow> True | Some str \<Rightarrow> str = [])"

text \<open>A property printed in a template literal; and a text between double quotes.\<close>

definition printed :: "string option \<Rightarrow> string" where
  "printed x = (case x of None \<Rightarrow> ''undefined'' | Some str \<Rightarrow> str)"

definition quoted :: "string \<Rightarrow> string" where
  "quoted str = [CHR 0x22] @ str @ [CHR 0x22]"

text \<open>\<^verbatim>\<open>Array.prototype.map\<close> with a callback that may throw: the first throw ends it.\<close>

fun mapThrowing :: "('a \<Rightarrow> exn + 'b) \<Rightarrow> 'a list \<Rightarrow> exn + 'b list" where
  "mapThrowing f [] = Inr []"
| "mapThrowing f (x # xs) =
     (case f x of
        Inl e \<Rightarrow> Inl e
      | Inr y \<Rightarrow> (case mapThrowing f xs of Inl e \<Rightarrow> Inl e | Inr ys \<Rightarrow> Inr (y # ys)))"

text \<open>
  The value of \<^verbatim>\<open>E[k]\<close>, \<open>None\<close> when it is falsy (\<^verbatim>\<open>undefined\<close>, the empty string
  or zero). A key that is missing is the key \<^verbatim>\<open>undefined\<close>. An own member hides an
  inherited one.
\<close>

definition lookupEnum :: "(string \<Rightarrow> enumValue option) \<Rightarrow> string option \<Rightarrow> looked option" where
  "lookupEnum members k =
     (case members (printed k) of
        Some v \<Rightarrow> if truthy v then Some (Member v) else None
      | None \<Rightarrow>
          if printed k \<in> set objectPrototypeMembers then Some (Inherited (printed k))
          else None)"

text \<open>Lines 40 to 58: one target.\<close>

definition parseTarget :: "(string \<Rightarrow> enumValue option) \<Rightarrow> TargetJSON \<Rightarrow> exn + Target" where
  "parseTarget flashingMethods item =
     (if falsy (json_name item) then Inl (JsError ''target must have a name property'')
      else
        case lookupEnum flashingMethods (json_flashingMethod item) of
          None \<Rightarrow>
            Inl (JsError (''error parsing target '' @ quoted (printed (json_name item)) @ '': ''
              @ quoted (printed (json_flashingMethod item))
              @ '' is not a valid flashing method''))
        | Some flashingMethod \<Rightarrow>
            Inr \<lparr>target_name = printed (json_name item),
                 target_flashingMethod = flashingMethod\<rparr>)"

text \<open>Lines 60 to 67: one user define.\<close>

definition parseUserDefine :: "(string \<Rightarrow> enumValue option) \<Rightarrow> string \<Rightarrow> exn + looked" where
  "parseUserDefine userDefineKeys item =
     (case lookupEnum userDefineKeys (Some item) of
        None \<Rightarrow> Inl (JsError (quoted item @ '' is not a valid User Define''))
      | Some userDefineKey \<Rightarrow> Inr userDefineKey)"

text \<open>Lines 25 to 86: the body of the \<^verbatim>\<open>try\<close> for one entry.\<close>

definition parseDevice ::
  "(string \<Rightarrow> enumValue option) \<Rightarrow> (string \<Rightarrow> enumValue option)
     \<Rightarrow> (string \<Rightarrow> enumValue option) \<Rightarrow> DeviceJSON \<Rightarrow> exn + Device" where
  "parseDevice flashingMethods userDefineKeys deviceTypes v =
     (if falsy (dev_name v) then Inl (JsError ''all devices must have a name property!'')
      else if falsy (dev_category v) then Inl (JsError ''category property is required!'')
      else
        case dev_targets v of
          None \<Rightarrow> Inl (JsError ''devices must have a list of targets defined!'')
        | Some ts \<Rightarrow>
        if length ts = 0 then Inl (JsError ''devices must have a list of targets defined!'')
        else
        case dev_userDefines v of
          None \<Rightarrow> Inl (JsError ''devices must have a list of supported user defines!'')
        | Some uds \<Rightarrow>
        if length uds = 0 then
          Inl (JsError ''devices must have a list of supported user defines!'')
        else
        case mapThrowing (parseTarget flashingMethods) ts of
          Inl e \<Rightarrow> Inl e
        | Inr targets \<Rightarrow>
        case mapThrowing (parseUserDefine userDefineKeys) uds of
          Inl e \<Rightarrow> Inl e
        | Inr userDefs \<Rightarrow>
        case lookupEnum deviceTypes (dev_deviceType v) of
          None \<Rightarrow>
            Inl (JsError (quoted (printed (dev_deviceType v)) @ '' is not a valid device type''))
        | Some deviceType \<Rightarrow>
            Inr \<lparr>device_id = printed (dev_name v), device_name = printed (dev_name v),
                 device_category = printed (dev_category v), device_targets = targets,
                 device_userDefines = userDefs, device_wikiUrl = dev_wikiUrl v,
                 device_deviceType = deviceType\<rparr>)"

text \<open>
  The \<^verbatim>\<open>catch\<close> of lines 87 to 91 throws again, with the name of the entry. What it
  catches is an error object: the body throws nothing else.
\<close>

fun errorMessage :: "exn \<Rightarrow> string" where
  "errorMessage (JsError m) = m"
| "errorMessage (TypeError m) = m"

definition loadDevice ::
  "(string \<Rightarrow> enumValue option) \<Rightarrow> (string \<Rightarrow> enumValue option)
     \<Rightarrow> (string \<Rightarrow> enumValue option) \<Rightarrow> DeviceJSON \<Rightarrow> exn + Device" where
  "loadDevice flashingMethods userDefineKeys deviceTypes v =
     (case parseDevice flashingMethods userDefineKeys deviceTypes v of
        Inl error \<Rightarrow>
          Inl (JsError (''Issue encountered while parsing device '' @ quoted (printed (dev_name v))
            @ '' in the device configuration file devices.json: '' @ errorMessage error))
      | Inr device \<Rightarrow> Inr device)"

definition loadDevices ::
  "(string \<Rightarrow> enumValue option) \<Rightarrow> (string \<Rightarrow> enumValue option)
     \<Rightarrow> (string \<Rightarrow> enumValue option) \<Rightarrow> DeviceJSON list \<Rightarrow> exn + Device list" where
  "loadDevices flashingMethods userDefineKeys deviceTypes devicesJSON =
     mapThrowing (loadDevice flashingMethods userDefineKeys deviceTypes) devicesJSON"

text \<open>The constructor loads the catalog once; \<^verbatim>\<open>getDevices\<close> returns it.\<close>

record DeviceService =
  devices :: "Device list"

definition newDeviceService ::
  "(string \<Rightarrow> enumValue option) \<Rightarrow> (string \<Rightarrow> enumValue option)
     \<Rightarrow> (string \<Rightarrow> enumValue option) \<Rightarrow> DeviceJSON list \<Rightarrow> exn + DeviceService" where
  "newDeviceService flashingMethods userDefineKeys deviceTypes devicesJSON =
     (case loadDevices flashingMethods userDefineKeys deviceTypes devicesJSON of
        Inl e \<Rightarrow> Inl e
      | Inr ds \<Rightarrow> Inr \<lparr>devices = ds\<rparr>)"

definition getDevices :: "DeviceService \<Rightarrow> Device list" where
  "getDevices service = devices service"

subsection \<open>Example inputs\<close>

definition branchInput :: FirmwareVersionDataInput where
  "branchInput =
     \<lparr>source = GitBranch, gitTag = ''1.0.0'', gitBranch = [], gitCommit = [], localPath = ''/x'',
      gitPullRequest = None\<rparr>"

text \<open>Enumerations of strings, each member with its own name as value.\<close>

definition knownFlashingMethods :: "string \<Rightarrow> enumValue option" where
  "knownFlashingMethods k =
     (if k \<in> set [''BetaflightPassthrough'', ''UART'', ''WIFI''] then Some (Str k) else None)"

definition knownUserDefineKeys :: "string \<Rightarrow> enumValue option" where
  "knownUserDefineKeys k =
     (if k \<in> set [''REGULATORY_DOMAIN_EU_868'', ''BINDING_PHRASE''] then Some (Str k) else None)"

definition knownDeviceTypes :: "string \<Rightarrow> enumValue option" where
  "knownDeviceTypes k = (if k \<in> set [''ExpressLRS'', ''Backpack''] then Some (Str k) else None)"

definition goodEntry :: DeviceJSON where
  "goodEntry =
     \<lparr>dev_name = Some ''DIY 900 TX'', dev_category = Some ''DIY 900 MHz'',
      dev_targets = Some [\<lparr>json_name = Some ''DIY_900_TX_via_UART'',
                          json_flashingMethod = Some ''UART''\<rparr>],
      dev_userDefines = Some [''BINDING_PHRASE''],
      dev_wikiUrl = None, dev_deviceType = Some ''ExpressLRS''\<rparr>"

definition inheritedEntry :: DeviceJSON where
  "inheritedEntry = goodEntry\<lparr>dev_deviceType := Some ''constructor''\<rparr>"

section \<open>Properties of the build pipeline\<close>

subsection \<open>Sequencing and the outer frame\<close>

lemma andThenE:
  assumes "andThen m f = (c, new)"
  obtains (normal) v n1 n2 where "m = (Normal v, n1)" "f v = (c, n2)" "new = n1 @ n2"
    | (return) r where "m = (Return r, new)" "c = Return r"
    | (throw) e where "m = (Throw e, new)" "c = Throw e"
  using assms unfolding andThen_def
  by (auto split: prod.splits completion.splits)

lemmas prims = andThen_def await_def awaitStreaming_def updateProgress_def updateLogs_def
  pure_def returnResult_def throw_def

lemmas splits = sum.splits prod.splits if_splits completion.splits

text \<open>
  An accepted request: the guard is taken and given back around the \<^verbatim>\<open>try\<close> block,
  whose events join the history; the \<^verbatim>\<open>unlock\<close> of the \<^verbatim>\<open>finally\<close> finds the guard
  held and does not throw.
\<close>

lemma buildFlashFirmware_unlocked:
  "\<not> isLocked (mutex s) \<Longrightarrow>
   buildFlashFirmware env params gitRepo s =
     (catchAll env (fst (tryBlock env (PATH s) (firmwaresPath s) params gitRepo)),
      s\<lparr>history := history s @ snd (tryBlock env (PATH s) (firmwaresPath s) params gitRepo)\<rparr>)"
  by (cases s)
    (auto simp: buildFlashFirmware_def isLocked_def tryLock_def unlock_def Let_def
      split: prod.splits)

lemma emitted_unlocked:
  "\<not> isLocked (mutex s) \<Longrightarrow>
   emitted s (snd (buildFlashFirmware env params gitRepo s)) =
     snd (tryBlock env (PATH s) (firmwaresPath s) params gitRepo)"
  by (simp add: buildFlashFirmware_unlocked emitted_def)

lemma outcome_unlocked:
  "\<not> isLocked (mutex s) \<Longrightarrow>
   fst (buildFlashFirmware env params gitRepo s) =
     catchAll env (fst (tryBlock env (PATH s) (firmwaresPath s) params gitRepo))"
  by (simp add: buildFlashFirmware_unlocked)

subsection \<open>The guard\<close>

text \<open>
  C1. A request that found the guard free leaves it free when the call is over,
  whatever the collaborators did (success, a typed failure, a thrown exception): the
  guard of the state after the call is not locked, and a \<open>tryLock\<close> on it succeeds,
  so that the next request is accepted.
\<close>

theorem guard_released:
  "\<not> isLocked (mutex s) \<Longrightarrow>
   \<not> isLocked (mutex (snd (buildFlashFirmware env params gitRepo s))) \<and>
   fst (tryLock (mutex (snd (buildFlashFirmware env params gitRepo s))))"
  by (simp add: buildFlashFirmware_unlocked tryLock_def isLocked_def)

theorem guard_released_witness:
  "\<not> isLocked (mutex idleService) \<and>
   \<not> isLocked (mutex (snd (buildFlashFirmware failingCompiler tagRequest exampleRepo idleService))) \<and>
   fst (tryLock (mutex (snd (buildFlashFirmware failingCompiler tagRequest exampleRepo idleService))))"
proof -
  have free: "\<not> isLocked (mutex idleService)"
    by (simp add: idleService_def isLocked_def)
  from guard_released [OF free, of failingCompiler tagRequest exampleRepo] free
  show ?thesis by simp
qed

text \<open>
  C2. A request that finds the guard held gets the failure result of kind
  \<open>GenericError\<close> at once: the state of the service is the one it found, so nothing
  was published, no collaborator was called, and the guard is still held by the build
  in flight.
\<close>

theorem busy_rejected:
  "isLocked (mutex s) \<Longrightarrow>
   buildFlashFirmware env params gitRepo s =
     (Inr (Some \<lparr>success = False,
                 message = Some ''there is another build/flash request in progress...'',
                 errorType = Some GenericError, firmwareBinPath = None\<rparr>), s)"
  by (simp add: buildFlashFirmware_def busy_def failure_def)

theorem busy_rejected_witness:
  "isLocked (mutex busyService) \<and>
   buildFlashFirmware workingToolchain tagRequest exampleRepo busyService =
     (Inr (Some \<lparr>success = False,
                 message = Some ''there is another build/flash request in progress...'',
                 errorType = Some GenericError, firmwareBinPath = None\<rparr>), busyService)"
proof -
  have held: "isLocked (mutex busyService)"
    by (simp add: busyService_def idleService_def isLocked_def)
  from busy_rejected [OF held, of workingToolchain tagRequest exampleRepo] held
  show ?thesis by simp
qed

subsection \<open>Progress events\<close>

lemma progressSteps_append: "progressSteps (xs @ ys) = progressSteps xs @ progressSteps ys"
  by (induction xs rule: progressSteps.induct) auto

lemma progressSteps_logs: "progressSteps (map BuildLogsUpdate chunks) = []"
  by (induction chunks) auto

text \<open>
  Each part that completes normally has published its one progress event; a part that
  returns early returns a failure.
\<close>

lemma verify_progress:
  "verifyBuildSystem env = (Normal v, n) \<Longrightarrow> progressSteps n = [VERIFYING_BUILD_SYSTEM]"
  by (auto simp: verifyBuildSystem_def prims progressSteps_logs split: splits)

lemma verify_return: "verifyBuildSystem env = (Return r, n) \<Longrightarrow> \<not> success r"
  by (auto simp: verifyBuildSystem_def prims failure_def split: splits)

lemma locate_progress: "locateGit env path = (Normal v, n) \<Longrightarrow> progressSteps n = []"
  by (auto simp: locateGit_def readProperty_def prims split: splits)

lemma locate_return: "locateGit env path = (Return r, n) \<Longrightarrow> \<not> success r"
  by (auto simp: locateGit_def readProperty_def prims failure_def split: splits)

lemma download_progress:
  "downloadFirmware env base params gitRepo gitPath = (Normal v, n) \<Longrightarrow>
   progressSteps n = [DOWNLOADING_FIRMWARE]"
  by (auto simp: downloadFirmware_def resolveSource_def prims
      split: splits FirmwareSource.splits)

lemma download_return: "downloadFirmware env base params gitRepo gitPath \<noteq> (Return r, n)"
  by (auto simp: downloadFirmware_def resolveSource_def prims
      split: splits FirmwareSource.splits)

lemma defines_progress:
  "buildUserDefines env params firmwarePath = (Normal v, n) \<Longrightarrow>
   progressSteps n = [BUILDING_USER_DEFINES]"
  by (auto simp: buildUserDefines_def checkCompatibility_def materializeUserDefines_def prims
      split: splits UserDefinesMode.splits)

lemma defines_return:
  "buildUserDefines env params firmwarePath = (Return r, n) \<Longrightarrow> \<not> success r"
  by (auto simp: buildUserDefines_def checkCompatibility_def materializeUserDefines_def prims
      failure_def split: splits UserDefinesMode.splits)

lemma compile_progress:
  "compileFirmware env params userDefs firmwarePath = (Normal v, n) \<Longrightarrow>
   progressSteps n = [BUILDING_FIRMWARE]"
  by (auto simp: compileFirmware_def prims progressSteps_logs split: splits)

lemma compile_return:
  "compileFirmware env params userDefs firmwarePath = (Return r, n) \<Longrightarrow> \<not> success r"
  by (auto simp: compileFirmware_def prims failure_def split: splits)

lemma finish_success:
  "finishJob env params firmwarePath = (Return r, n) \<Longrightarrow> success r \<Longrightarrow>
   progressSteps n = (if type params = Build then [] else [FLASHING_FIRMWARE])
   \<and> message r = None \<and> errorType r = None
   \<and> (firmwareBinPath r \<noteq> None \<longleftrightarrow> type params = Build)"
  by (auto simp: finishJob_def prims failure_def progressSteps_logs split: splits)

lemma tryBlock_success:
  assumes "tryBlock env path base params gitRepo = (Return r, new)" and "success r"
  shows "progressSteps new =
      [VERIFYING_BUILD_SYSTEM, DOWNLOADING_FIRMWARE, BUILDING_USER_DEFINES, BUILDING_FIRMWARE]
      @ (if type params = Build then [] else [FLASHING_FIRMWARE])
    \<and> message r = None \<and> errorType r = None
    \<and> (firmwareBinPath r \<noteq> None \<longleftrightarrow> type params = Build)"
  using assms unfolding tryBlock_def
  by (elim andThenE)
    (auto simp: progressSteps_append download_return
      dest!: verify_progress verify_return locate_progress locate_return download_progress
        defines_progress defines_return compile_progress compile_return finish_success)

lemma catchAll_success: "catchAll env c = Inr (Some r) \<Longrightarrow> success r \<Longrightarrow> c = Return r"
  by (auto simp: catchAll_def failure_def split: completion.splits sum.splits)

text \<open>
  The converse for the hypothesis of the next theorem: when every collaborator does
  what it is asked, for a supported source and mode, the result is a success.
\<close>

lemma all_steps_succeed:
  assumes free: "\<not> isLocked (mutex s)"
    and published: "\<And>ty st. publishProgress env ty st = Inr ()"
    and python: "checkPython env = Inr pythonCheck" "ok pythonCheck"
    and core: "checkCore env = Inr coreCheck" "ok coreCheck"
    and git: "findGitExecutable env (PATH s) = Inr gitPath"
    and supported: "source (firmware params) \<in> {GitTag, GitBranch, GitCommit, Local}"
    and checkedOut: "\<And>ref. \<exists>path. checkoutTag env (firmwaresPath s) gitPath (url gitRepo) ref = Inr path"
    and mode: "userDefinesMode params \<in> {Manual, UserInterface}"
    and compat: "\<And>path keys. \<exists>r. checkDefaultUserDefinesCompatibilityAtPath env path keys = Inr r
          \<and> compatible r"
    and materialized: "userDefinesTxtBuild env (userDefines params) = Inr txt"
    and state: "getPlatformioState env = Inr json"
    and compiled: "\<And>t u path. \<exists>chunks r. build env t u path = (chunks, Inr r) \<and> ok r"
    and located: "\<And>t path. \<exists>bin. getFirmwareBinPath env t path = Inr bin"
    and flashed: "\<And>t path. \<exists>chunks r. flash env t path = (chunks, Inr r) \<and> ok r"
  shows "\<exists>r. fst (buildFlashFirmware env params gitRepo s) = Inr (Some r) \<and> success r"
proof -
  have 1: "\<exists>n. verifyBuildSystem env = (Normal (), n)"
    using published python core by (simp add: verifyBuildSystem_def prims)
  have 2: "\<exists>n. locateGit env (PATH s) = (Normal gitPath, n)"
    using git by (simp add: locateGit_def prims)
  obtain firmwarePath where 3:
    "\<exists>n. downloadFirmware env (firmwaresPath s) params gitRepo gitPath
            = (Normal firmwarePath, n)"
  proof (cases "source (firmware params) = Local")
    case True
    then have "\<exists>n. downloadFirmware env (firmwaresPath s) params gitRepo gitPath
            = (Normal (localPath (firmware params)), n)"
      using published by (simp add: downloadFirmware_def resolveSource_def prims)
    then show ?thesis by (rule that)
  next
    case False
    define ref where "ref = (if source (firmware params) = GitBranch
      then gitBranch (firmware params) else gitTag (firmware params))"
    from checkedOut [of ref] obtain path where
      "checkoutTag env (firmwaresPath s) gitPath (url gitRepo) ref = Inr path" ..
    with False supported
    have "\<exists>n. downloadFirmware env (firmwaresPath s) params gitRepo gitPath = (Normal path, n)"
      using published
      by (auto simp: downloadFirmware_def resolveSource_def prims ref_def)
    then show ?thesis by (rule that)
  qed
  obtain userDefs where 4:
    "\<exists>n. buildUserDefines env params firmwarePath = (Normal userDefs, n)"
  proof (cases "userDefinesMode params = UserInterface")
    case True
    from compat [of firmwarePath "map key (filter enabled (userDefines params))"]
    obtain r where "checkDefaultUserDefinesCompatibilityAtPath env firmwarePath
        (map key (filter enabled (userDefines params))) = Inr r" "compatible r"
      by blast
    with True materialized
    have "\<exists>n. buildUserDefines env params firmwarePath = (Normal txt, n)"
      using published
      by (simp add: buildUserDefines_def checkCompatibility_def materializeUserDefines_def
          prims)
    then show ?thesis by (rule that)
  next
    case False
    with mode have "userDefinesMode params = Manual" by simp
    then have "\<exists>n. buildUserDefines env params firmwarePath
        = (Normal (userDefinesTxt params), n)"
      using published
      by (simp add: buildUserDefines_def checkCompatibility_def materializeUserDefines_def
          prims)
    then show ?thesis by (rule that)
  qed
  have 5: "\<exists>n. compileFirmware env params userDefs firmwarePath = (Normal (), n)"
  proof -
    from compiled [of "target params" userDefs firmwarePath] obtain chunks r where
      "build env (target params) userDefs firmwarePath = (chunks, Inr r)" "ok r"
      by blast
    then show ?thesis
      using published state by (simp add: compileFirmware_def prims)
  qed
  have 6: "\<exists>r n. finishJob env params firmwarePath = (Return r, n) \<and> success r"
  proof -
    from located [of "target params" firmwarePath] obtain bin where
      "getFirmwareBinPath env (target params) firmwarePath = Inr bin" ..
    moreover
    from flashed [of "target params" firmwarePath] obtain chunks r where
      "flash env (target params) firmwarePath = (chunks, Inr r)" "ok r"
      by blast
    ultimately show ?thesis
      using published by (simp add: finishJob_def prims)
  qed
  from 1 2 3 4 5 6
  have "\<exists>r n. tryBlock env (PATH s) (firmwaresPath s) params gitRepo = (Return r, n)
      \<and> success r"
    unfolding tryBlock_def by (auto simp: andThen_def)
  then show ?thesis
    by (auto simp: outcome_unlocked [OF free] catchAll_def)
qed

text \<open>
  C4. A run on which no step fails is a run that ends with \<open>success = True\<close>: every
  failure of a step ends the run with a failure result, and a run on which every step
  succeeds ends with a success (\<open>all_steps_succeed\<close>). On such a run the progress
  events published are, in this order, the four steps up to
  \<open>BUILDING_FIRMWARE\<close> for a \<open>Build\<close> job, and these four followed by
  \<open>FLASHING_FIRMWARE\<close> for a \<open>BuildAndFlash\<close> job.
\<close>

theorem progress_sequence:
  "\<not> isLocked (mutex s) \<Longrightarrow>
   fst (buildFlashFirmware env params gitRepo s) = Inr (Some r) \<Longrightarrow> success r \<Longrightarrow>
   progressSteps (emitted s (snd (buildFlashFirmware env params gitRepo s))) =
     (if type params = Build
      then [VERIFYING_BUILD_SYSTEM, DOWNLOADING_FIRMWARE, BUILDING_USER_DEFINES,
            BUILDING_FIRMWARE]
      else [VERIFYING_BUILD_SYSTEM, DOWNLOADING_FIRMWARE, BUILDING_USER_DEFINES,
            BUILDING_FIRMWARE, FLASHING_FIRMWARE])"
proof -
  assume free: "\<not> isLocked (mutex s)"
    and res: "fst (buildFlashFirmware env params gitRepo s) = Inr (Some r)"
    and ok: "success r"
  let ?run = "tryBlock env (PATH s) (firmwaresPath s) params gitRepo"
  from free res have "catchAll env (fst ?run) = Inr (Some r)"
    by (simp add: outcome_unlocked)
  with ok have "fst ?run = Return r" by (rule catchAll_success [rotated])
  then have "?run = (Return r, snd ?run)" by (simp add: prod_eq_iff)
  from tryBlock_success [OF this ok] show ?thesis
    by (simp add: emitted_unlocked [OF free])
qed

theorem progress_sequence_witness:
  "\<not> isLocked (mutex idleService) \<and>
   fst (buildFlashFirmware workingToolchain flashRequest exampleRepo idleService) =
     Inr (Some \<lparr>success = True, message = None, errorType = None, firmwareBinPath = None\<rparr>) \<and>
   progressSteps
     (emitted idleService
       (snd (buildFlashFirmware workingToolchain flashRequest exampleRepo idleService))) =
     [VERIFYING_BUILD_SYSTEM, DOWNLOADING_FIRMWARE, BUILDING_USER_DEFINES,
      BUILDING_FIRMWARE, FLASHING_FIRMWARE]"
proof -
  have free: "\<not> isLocked (mutex idleService)"
    by (simp add: idleService_def isLocked_def)
  have res: "fst (buildFlashFirmware workingToolchain flashRequest exampleRepo idleService) =
     Inr (Some \<lparr>success = True, message = None, errorType = None, firmwareBinPath = None\<rparr>)"
    by code_simp
  have job: "type flashRequest = BuildAndFlash"
    by (simp add: flashRequest_def)
  from progress_sequence [OF free res] free res job show ?thesis by simp
qed

subsection \<open>Compilation and flashing\<close>

text \<open>
  The builder is asked to compile in one place and to flash in one place; the parts
  before them call neither.
\<close>

lemma verify_calls:
  "verifyBuildSystem env = (c, n) \<Longrightarrow>
   (\<forall>t u fp. BuilderBuild t u fp \<notin> set n) \<and> (\<forall>t fp. BuilderFlash t fp \<notin> set n)"
  by (auto simp: verifyBuildSystem_def prims split: splits)

lemma locate_calls:
  "locateGit env path = (c, n) \<Longrightarrow>
   (\<forall>t u fp. BuilderBuild t u fp \<notin> set n) \<and> (\<forall>t fp. BuilderFlash t fp \<notin> set n)"
  by (auto simp: locateGit_def readProperty_def prims split: splits)

lemma download_calls:
  "downloadFirmware env base params gitRepo gitPath = (c, n) \<Longrightarrow>
   (\<forall>t u fp. BuilderBuild t u fp \<notin> set n) \<and> (\<forall>t fp. BuilderFlash t fp \<notin> set n)"
  by (auto simp: downloadFirmware_def resolveSource_def prims
      split: splits FirmwareSource.splits)

lemma defines_calls:
  "buildUserDefines env params firmwarePath = (c, n) \<Longrightarrow>
   (\<forall>t u fp. BuilderBuild t u fp \<notin> set n) \<and> (\<forall>t fp. BuilderFlash t fp \<notin> set n)"
  by (auto simp: buildUserDefines_def checkCompatibility_def materializeUserDefines_def prims
      split: splits UserDefinesMode.splits)

lemma compile_calls:
  "compileFirmware env params userDefs firmwarePath = (c, n) \<Longrightarrow>
   (\<forall>t fp. BuilderFlash t fp \<notin> set n) \<and>
   (\<forall>t u fp. BuilderBuild t u fp \<in> set n \<longrightarrow>
      (\<forall>cr. snd (build env t u fp) = Inr cr \<and> \<not> ok cr \<longrightarrow>
         c = Return (failure (stderr cr) BuildError)))"
  by (auto simp: compileFirmware_def prims split: splits)

lemma finish_calls:
  "finishJob env params firmwarePath = (c, n) \<Longrightarrow>
   (\<forall>t u fp. BuilderBuild t u fp \<notin> set n) \<and>
   (\<forall>t fp. BuilderFlash t fp \<in> set n \<longrightarrow>
      (\<forall>fr. snd (flash env t fp) = Inr fr \<and> ok fr \<longrightarrow>
         c = Return \<lparr>success = True, message = None, errorType = None,
                      firmwareBinPath = None\<rparr>))"
  by (auto simp: finishJob_def prims split: splits)

lemma tryBlock_compile_failure:
  assumes "tryBlock env path base params gitRepo = (c, new)"
    and "BuilderBuild t u fp \<in> set new" and "snd (build env t u fp) = Inr cr" and "\<not> ok cr"
  shows "c = Return (failure (stderr cr) BuildError) \<and> (\<forall>t' fp'. BuilderFlash t' fp' \<notin> set new)"
  using assms unfolding tryBlock_def
  by (elim andThenE)
    (auto dest!: verify_calls locate_calls download_calls defines_calls compile_calls
      finish_calls)

lemma tryBlock_flashed:
  assumes "tryBlock env path base params gitRepo = (c, new)"
    and "BuilderFlash t fp \<in> set new" and "snd (flash env t fp) = Inr fr" and "ok fr"
  shows "c = Return \<lparr>success = True, message = None, errorType = None, firmwareBinPath = None\<rparr>"
  using assms unfolding tryBlock_def
  by (elim andThenE)
    (auto dest!: verify_calls locate_calls download_calls defines_calls compile_calls
      finish_calls)

text \<open>
  C5. When the run asks the builder to compile and the compilation reports
  \<open>success = false\<close>, the result of the request is the failure of kind
  \<open>BuildError\<close> whose message is the captured standard error, as it is, and the
  builder is not asked to flash.
\<close>

theorem compile_failure_reported:
  "\<not> isLocked (mutex s) \<Longrightarrow>
   BuilderBuild t userDefs firmwarePath
     \<in> set (emitted s (snd (buildFlashFirmware env params gitRepo s))) \<Longrightarrow>
   snd (build env t userDefs firmwarePath) = Inr compileResult \<Longrightarrow>
   \<not> ok compileResult \<Longrightarrow>
   fst (buildFlashFirmware env params gitRepo s) =
     Inr (Some \<lparr>success = False, message = Some (stderr compileResult),
                 errorType = Some BuildError, firmwareBinPath = None\<rparr>)
   \<and> (\<forall>t' fp'. BuilderFlash t' fp'
         \<notin> set (emitted s (snd (buildFlashFirmware env params gitRepo s))))"
proof -
  assume free: "\<not> isLocked (mutex s)"
    and called: "BuilderBuild t userDefs firmwarePath
          \<in> set (emitted s (snd (buildFlashFirmware env params gitRepo s)))"
    and failed: "snd (build env t userDefs firmwarePath) = Inr compileResult"
      "\<not> ok compileResult"
  let ?run = "tryBlock env (PATH s) (firmwaresPath s) params gitRepo"
  have run: "?run = (fst ?run, snd ?run)" by simp
  from called have "BuilderBuild t userDefs firmwarePath \<in> set (snd ?run)"
    by (simp add: emitted_unlocked [OF free])
  from tryBlock_compile_failure [OF run this failed]
  show ?thesis
    by (simp add: emitted_unlocked [OF free] outcome_unlocked [OF free] catchAll_def
        failure_def)
qed

theorem compile_failure_reported_witness:
  "\<not> isLocked (mutex idleService) \<and>
   BuilderBuild ''TARGET_A'' ''-DK'' ''/firmwares/1.0.0''
     \<in> set (emitted idleService
         (snd (buildFlashFirmware failingCompiler flashRequest exampleRepo idleService))) \<and>
   snd (build failingCompiler ''TARGET_A'' ''-DK'' ''/firmwares/1.0.0'') =
     Inr \<lparr>ok = False, stdout = [], stderr = ''undefined reference''\<rparr> \<and>
   fst (buildFlashFirmware failingCompiler flashRequest exampleRepo idleService) =
     Inr (Some \<lparr>success = False, message = Some ''undefined reference'',
                 errorType = Some BuildError, firmwareBinPath = None\<rparr>)"
proof -
  have free: "\<not> isLocked (mutex idleService)"
    by (simp add: idleService_def isLocked_def)
  have called: "BuilderBuild ''TARGET_A'' ''-DK'' ''/firmwares/1.0.0''
     \<in> set (emitted idleService
         (snd (buildFlashFirmware failingCompiler flashRequest exampleRepo idleService)))"
    by code_simp
  have failed: "snd (build failingCompiler ''TARGET_A'' ''-DK'' ''/firmwares/1.0.0'') =
     Inr \<lparr>ok = False, stdout = [], stderr = ''undefined reference''\<rparr>"
    by (simp add: failingCompiler_def)
  from compile_failure_reported [OF free called failed] free called failed
  show ?thesis by simp
qed

text \<open>
  C10. When the run asks the builder to flash (which it does only after a successful
  compilation, for a job that is not build-only) and the flashing succeeds, the result
  is \<open>success = True\<close> with no message, no error type and no binary path. A
  successful result has no message and no error type, and it has a binary path exactly
  when the job is \<open>Build\<close>.
\<close>

theorem flash_success_result:
  "\<not> isLocked (mutex s) \<Longrightarrow>
   (\<forall>t fp flashResult.
      type params = BuildAndFlash
      \<and> BuilderFlash t fp \<in> set (emitted s (snd (buildFlashFirmware env params gitRepo s)))
      \<and> snd (flash env t fp) = Inr flashResult \<and> ok flashResult \<longrightarrow>
      fst (buildFlashFirmware env params gitRepo s) =
        Inr (Some \<lparr>success = True, message = None, errorType = None,
                    firmwareBinPath = None\<rparr>))
   \<and> (\<forall>r. fst (buildFlashFirmware env params gitRepo s) = Inr (Some r) \<and> success r \<longrightarrow>
        message r = None \<and> errorType r = None
        \<and> (firmwareBinPath r \<noteq> None \<longleftrightarrow> type params = Build))"
proof -
  assume free: "\<not> isLocked (mutex s)"
  let ?run = "tryBlock env (PATH s) (firmwaresPath s) params gitRepo"
  have run: "?run = (fst ?run, snd ?run)" by simp
  have flashed: "fst (buildFlashFirmware env params gitRepo s) =
        Inr (Some \<lparr>success = True, message = None, errorType = None,
                    firmwareBinPath = None\<rparr>)"
    if "BuilderFlash t fp \<in> set (emitted s (snd (buildFlashFirmware env params gitRepo s)))"
      and "snd (flash env t fp) = Inr flashResult" and "ok flashResult"
    for t fp flashResult
  proof -
    from that(1) have "BuilderFlash t fp \<in> set (snd ?run)"
      by (simp add: emitted_unlocked [OF free])
    from tryBlock_flashed [OF run this that(2,3)] show ?thesis
      by (simp add: outcome_unlocked [OF free] catchAll_def)
  qed
  have successful: "message r = None \<and> errorType r = None
        \<and> (firmwareBinPath r \<noteq> None \<longleftrightarrow> type params = Build)"
    if "fst (buildFlashFirmware env params gitRepo s) = Inr (Some r)" and "success r" for r
  proof -
    from that(1) have "catchAll env (fst ?run) = Inr (Some r)"
      by (simp add: outcome_unlocked [OF free])
    then have "fst ?run = Return r" using that(2) by (rule catchAll_success)
    then have "?run = (Return r, snd ?run)" by (simp add: prod_eq_iff)
    from tryBlock_success [OF this that(2)] show ?thesis by simp
  qed
  from flashed successful show ?thesis by blast
qed

theorem flash_success_result_witness:
  "\<not> isLocked (mutex idleService) \<and>
   type flashRequest = BuildAndFlash \<and>
   BuilderFlash ''TARGET_A'' ''/firmwares/1.0.0''
     \<in> set (emitted idleService
         (snd (buildFlashFirmware workingToolchain flashRequest exampleRepo idleService))) \<and>
   snd (flash workingToolchain ''TARGET_A'' ''/firmwares/1.0.0'') = Inr succeeded \<and>
   ok succeeded \<and>
   fst (buildFlashFirmware workingToolchain flashRequest exampleRepo idleService) =
     Inr (Some \<lparr>success = True, message = None, errorType = None, firmwareBinPath = None\<rparr>)"
proof -
  have free: "\<not> isLocked (mutex idleService)"
    by (simp add: idleService_def isLocked_def)
  have job: "type flashRequest = BuildAndFlash"
    by (simp add: flashRequest_def)
  have called: "BuilderFlash ''TARGET_A'' ''/firmwares/1.0.0''
     \<in> set (emitted idleService
         (snd (buildFlashFirmware workingToolchain flashRequest exampleRepo idleService)))"
    by code_simp
  have flashed: "snd (flash workingToolchain ''TARGET_A'' ''/firmwares/1.0.0'') = Inr succeeded"
    by (simp add: workingToolchain_def)
  have good: "ok succeeded" by (simp add: succeeded_def)
  from flash_success_result [OF free, of flashRequest workingToolchain exampleRepo]
    job called flashed good free
  show ?thesis by blast
qed

subsection \<open>Exceptions\<close>











subsection \<open>Source resolution\<close>

text \<open>
  C3. The code checks out \<^verbatim>\<open>params.firmware.gitTag\<close> for a request whose source is
  \<open>GitCommit\<close>: for the commit \<open>0a1b2c3\<close>, with the tag field holding
  \<open>1.0.0\<close>, the one checkout of the run is of \<open>1.0.0\<close>.
\<close>

theorem gitCommit_checks_out_gitTag:
  "source (firmware commitRequest) = GitCommit \<and>
   gitCommit (firmware commitRequest) = ''0a1b2c3'' \<and>
   checkouts (emitted idleService
     (snd (buildFlashFirmware workingToolchain commitRequest exampleRepo idleService))) =
     [(''https://github.com/ExpressLRS/ExpressLRS'', ''1.0.0'')]"
  by code_simp

lemma checkouts_append: "checkouts (xs @ ys) = checkouts xs @ checkouts ys"
  by (induction xs rule: checkouts.induct) auto

lemma checkouts_logs: "checkouts (map BuildLogsUpdate chunks) = []"
  by (induction chunks) auto

text \<open>
  What the parts check out, and the firmware path they give to the builder. The lookup
  of git is made by every run that gets as far as the download step.
\<close>

lemma verify_paths:
  "verifyBuildSystem env = (c, n) \<Longrightarrow>
   checkouts n = [] \<and> (\<forall>ev \<in> set n. firmwarePathOf ev = None)
   \<and> BuildProgressNotification Info DOWNLOADING_FIRMWARE \<notin> set n"
  by (auto simp: verifyBuildSystem_def prims checkouts_logs checkouts_append split: splits)

lemma locate_paths:
  "locateGit env path = (c, n) \<Longrightarrow>
   checkouts n = [] \<and> (\<forall>ev \<in> set n. firmwarePathOf ev = None)
   \<and> FindGitExecutable path \<in> set n"
  by (auto simp: locateGit_def readProperty_def prims split: splits)

lemma download_paths:
  "downloadFirmware env base params gitRepo gitPath = (c, n) \<Longrightarrow>
   source (firmware params) = Local \<longrightarrow>
   checkouts n = [] \<and> (\<forall>ev \<in> set n. firmwarePathOf ev = None)
   \<and> (\<forall>v. c = Normal v \<longrightarrow> v = localPath (firmware params))"
  by (auto simp: downloadFirmware_def resolveSource_def prims split: splits)

lemma defines_paths:
  "buildUserDefines env params firmwarePath = (c, n) \<Longrightarrow>
   checkouts n = []
   \<and> (\<forall>ev \<in> set n. firmwarePathOf ev = None \<or> firmwarePathOf ev = Some firmwarePath)"
  by (auto simp: buildUserDefines_def checkCompatibility_def materializeUserDefines_def prims
      split: splits UserDefinesMode.splits)

lemma compile_paths:
  "compileFirmware env params userDefs firmwarePath = (c, n) \<Longrightarrow>
   checkouts n = []
   \<and> (\<forall>ev \<in> set n. firmwarePathOf ev = None \<or> firmwarePathOf ev = Some firmwarePath)"
  by (auto simp: compileFirmware_def prims checkouts_logs checkouts_append split: splits)

lemma finish_paths:
  "finishJob env params firmwarePath = (c, n) \<Longrightarrow>
   checkouts n = []
   \<and> (\<forall>ev \<in> set n. firmwarePathOf ev = None \<or> firmwarePathOf ev = Some firmwarePath)"
  by (auto simp: finishJob_def prims checkouts_logs checkouts_append split: splits)

lemma tryBlock_local:
  assumes "tryBlock env path base params gitRepo = (c, new)"
    and "source (firmware params) = Local"
  shows "checkouts new = []
    \<and> (\<forall>ev \<in> set new. firmwarePathOf ev = None
          \<or> firmwarePathOf ev = Some (localPath (firmware params)))"
  using assms unfolding tryBlock_def
  by (elim andThenE)
    (auto simp: checkouts_append
      dest!: verify_paths locate_paths download_paths defines_paths compile_paths finish_paths)

lemma tryBlock_lookup:
  assumes "tryBlock env path base params gitRepo = (c, new)"
    and "BuildProgressNotification Info DOWNLOADING_FIRMWARE \<in> set new"
  shows "FindGitExecutable path \<in> set new"
  using assms unfolding tryBlock_def
  by (elim andThenE) (auto dest!: verify_paths locate_paths)

text \<open>The lookup comes before the download step.\<close>

lemma verify_before_download:
  "verifyBuildSystem env = (c, n) \<Longrightarrow>
   \<forall>ev \<in> set n. ev \<noteq> BuildProgressNotification Info DOWNLOADING_FIRMWARE"
  by (auto simp: verifyBuildSystem_def prims split: splits)

lemma locate_head:
  "locateGit env path = (c, n) \<Longrightarrow> \<exists>rest. n = FindGitExecutable path # rest"
  by (auto simp: locateGit_def readProperty_def prims split: splits)

lemma tryBlock_lookup_first:
  assumes "tryBlock env path base params gitRepo = (c, new)"
    and "BuildProgressNotification Info DOWNLOADING_FIRMWARE \<in> set new"
  shows "FindGitExecutable path
    \<in> set (takeWhile (\<lambda>ev. ev \<noteq> BuildProgressNotification Info DOWNLOADING_FIRMWARE) new)"
  using assms unfolding tryBlock_def
  by (elim andThenE)
    (auto simp: takeWhile_append2 dest!: verify_before_download locate_head)

text \<open>
  C7, as the claim states it, fails: a request whose source is \<open>Local\<close> looks the
  git executable up like any other, and fails with \<open>GitDependencyError\<close> when git
  is not found.
\<close>

theorem local_git_lookup_counterexample:
  "source (firmware localRequest) = Local \<and>
   FindGitExecutable ''/usr/bin''
     \<in> set (emitted idleService
         (snd (buildFlashFirmware workingToolchain localRequest exampleRepo idleService))) \<and>
   fst (buildFlashFirmware gitMissing localRequest exampleRepo idleService) =
     Inr (Some \<lparr>success = False, message = Some ''Error: git not found'',
                 errorType = Some GitDependencyError, firmwareBinPath = None\<rparr>)"
  by code_simp

text \<open>
  C7, amended. For a request whose source is \<open>Local\<close> the run checks nothing out,
  the switch on the source gives \<open>localPath\<close> without calling any collaborator
  (no existence check), and every call on the builder that takes a firmware path is
  given \<open>localPath\<close>. The lookup of the git executable is made all the same: a run
  that has published \<open>DOWNLOADING_FIRMWARE\<close> has looked git up on \<open>PATH\<close>,
  and has done so before it published that step.
\<close>

theorem local_source_used_as_is:
  "\<not> isLocked (mutex s) \<Longrightarrow> source (firmware params) = Local \<Longrightarrow>
   checkouts (emitted s (snd (buildFlashFirmware env params gitRepo s))) = []
   \<and> resolveSource env (firmwaresPath s) (firmware params) gitRepo gitPath =
       (Normal (localPath (firmware params)), [])
   \<and> (\<forall>ev \<in> set (emitted s (snd (buildFlashFirmware env params gitRepo s))).
        firmwarePathOf ev = None \<or> firmwarePathOf ev = Some (localPath (firmware params)))
   \<and> (BuildProgressNotification Info DOWNLOADING_FIRMWARE
         \<in> set (emitted s (snd (buildFlashFirmware env params gitRepo s))) \<longrightarrow>
       FindGitExecutable (PATH s)
         \<in> set (emitted s (snd (buildFlashFirmware env params gitRepo s))))
   \<and> (BuildProgressNotification Info DOWNLOADING_FIRMWARE
         \<in> set (emitted s (snd (buildFlashFirmware env params gitRepo s))) \<longrightarrow>
       FindGitExecutable (PATH s)
         \<in> set (takeWhile (\<lambda>ev. ev \<noteq> BuildProgressNotification Info DOWNLOADING_FIRMWARE)
                  (emitted s (snd (buildFlashFirmware env params gitRepo s)))))"
proof -
  assume free: "\<not> isLocked (mutex s)" and local: "source (firmware params) = Local"
  let ?run = "tryBlock env (PATH s) (firmwaresPath s) params gitRepo"
  have run: "?run = (fst ?run, snd ?run)" by simp
  have "resolveSource env (firmwaresPath s) (firmware params) gitRepo gitPath =
       (Normal (localPath (firmware params)), [])"
    using local by (simp add: resolveSource_def pure_def)
  with tryBlock_local [OF run local] tryBlock_lookup [OF run] tryBlock_lookup_first [OF run]
  show ?thesis
    by (simp add: emitted_unlocked [OF free])
qed

theorem local_source_used_as_is_witness:
  "\<not> isLocked (mutex idleService) \<and> source (firmware localRequest) = Local \<and>
   checkouts (emitted idleService
     (snd (buildFlashFirmware workingToolchain localRequest exampleRepo idleService))) = [] \<and>
   BuilderBuild ''TARGET_A'' ''-DK'' ''/x''
     \<in> set (emitted idleService
         (snd (buildFlashFirmware workingToolchain localRequest exampleRepo idleService))) \<and>
   firmwarePathOf (BuilderBuild ''TARGET_A'' ''-DK'' ''/x'') =
     Some (localPath (firmware localRequest)) \<and>
   FindGitExecutable (PATH idleService)
     \<in> set (emitted idleService
         (snd (buildFlashFirmware workingToolchain localRequest exampleRepo idleService)))"
proof -
  let ?em = "emitted idleService
     (snd (buildFlashFirmware workingToolchain localRequest exampleRepo idleService))"
  have free: "\<not> isLocked (mutex idleService)"
    by (simp add: idleService_def isLocked_def)
  have local: "source (firmware localRequest) = Local"
    by (simp add: localRequest_def)
  have built: "BuilderBuild ''TARGET_A'' ''-DK'' ''/x'' \<in> set ?em"
    by code_simp
  have download: "BuildProgressNotification Info DOWNLOADING_FIRMWARE \<in> set ?em"
    by code_simp
  from local_source_used_as_is [OF free local, of workingToolchain exampleRepo]
  have "checkouts ?em = []"
    and "\<forall>ev \<in> set ?em. firmwarePathOf ev = None
           \<or> firmwarePathOf ev = Some (localPath (firmware localRequest))"
    and "BuildProgressNotification Info DOWNLOADING_FIRMWARE \<in> set ?em \<longrightarrow>
         FindGitExecutable (PATH idleService) \<in> set ?em"
    by blast+
  with free local built download show ?thesis by auto
qed

section \<open>Properties of the validation\<close>

text \<open>
  C8. For an input whose source is one of the five known variants the validation
  returns a list of errors and does not throw; the list is not empty exactly when the
  field that the selected variant requires is empty (or, for a pull request, absent);
  and an input with the same source and the same required field gets the same answer,
  whatever its other fields hold.
\<close>

theorem validation_by_selected_variant:
  assumes "source d \<in> {Local, GitCommit, GitBranch, GitTag, GitPullRequest}"
  shows "\<exists>errs. validateFirmwareVersionData printSource d = Inr errs
     \<and> (errs \<noteq> [] \<longleftrightarrow> requiredFieldEmpty d)
     \<and> (\<forall>d'. source d' = source d \<and> requiredField d' = requiredField d \<longrightarrow>
           validateFirmwareVersionData printSource d' =
             validateFirmwareVersionData printSource d)"
proof (cases "source d")
  case Local
  then show ?thesis
    by (auto simp: validateFirmwareVersionData_def requiredFieldEmpty_def requiredField_def
        filled_def)
next
  case GitCommit
  then show ?thesis
    by (auto simp: validateFirmwareVersionData_def requiredFieldEmpty_def requiredField_def
        filled_def)
next
  case GitBranch
  then show ?thesis
    by (auto simp: validateFirmwareVersionData_def requiredFieldEmpty_def requiredField_def
        filled_def)
next
  case GitTag
  then show ?thesis
    by (auto simp: validateFirmwareVersionData_def requiredFieldEmpty_def requiredField_def
        filled_def)
next
  case GitPullRequest
  then show ?thesis
    by (auto simp: validateFirmwareVersionData_def requiredFieldEmpty_def requiredField_def
        filled_def split: option.splits)
next
  case (UnknownSource x)
  with assms show ?thesis by simp
qed

theorem validation_by_selected_variant_witness:
  "source branchInput \<in> {Local, GitCommit, GitBranch, GitTag, GitPullRequest} \<and>
   requiredFieldEmpty branchInput \<and>
   validateFirmwareVersionData (sourceValue workingToolchain) branchInput =
     Inr [JsError ''Git branch is not selected'']"
proof -
  have known: "source branchInput \<in> {Local, GitCommit, GitBranch, GitTag, GitPullRequest}"
    by (simp add: branchInput_def)
  have empty: "requiredFieldEmpty branchInput"
    by (simp add: requiredFieldEmpty_def requiredField_def branchInput_def)
  from validation_by_selected_variant [OF known, of "sourceValue workingToolchain"]
  obtain errs where
    "validateFirmwareVersionData (sourceValue workingToolchain) branchInput = Inr errs"
    "errs \<noteq> []"
    using empty by blast
  moreover have "validateFirmwareVersionData (sourceValue workingToolchain) branchInput =
     Inr [JsError ''Git branch is not selected'']"
    by (simp add: validateFirmwareVersionData_def branchInput_def filled_def)
  ultimately show ?thesis using known empty by simp
qed

section \<open>Properties of the device catalog\<close>

lemma mapThrowing_length: "mapThrowing f xs = Inr ys \<Longrightarrow> length ys = length xs"
  by (induction xs arbitrary: ys) (auto split: sum.splits)

lemma mapThrowing_from:
  "mapThrowing f xs = Inr ys \<Longrightarrow> y \<in> set ys \<Longrightarrow> \<exists>x \<in> set xs. f x = Inr y"
  by (induction xs arbitrary: ys) (auto split: sum.splits)

lemma parseDevice_nonempty:
  "parseDevice F U D v = Inr d \<Longrightarrow> device_targets d \<noteq> [] \<and> device_userDefines d \<noteq> []"
  unfolding parseDevice_def
  by (auto split: if_splits option.splits sum.splits dest!: mapThrowing_length)

lemma loadDevice_parsed: "loadDevice F U D v = Inr d \<Longrightarrow> parseDevice F U D v = Inr d"
  by (simp add: loadDevice_def split: sum.splits)

text \<open>
  The lists of a loaded device are not empty: an entry without targets or without user
  defines makes the loader throw.
\<close>

lemma loadDevices_nonempty:
  assumes "loadDevices F U D catalog = Inr ds" and "d \<in> set ds"
  shows "device_targets d \<noteq> [] \<and> device_userDefines d \<noteq> []"
proof -
  from assms obtain v where "loadDevice F U D v = Inr d"
    unfolding loadDevices_def by (blast dest: mapThrowing_from)
  then show ?thesis by (blast dest: loadDevice_parsed parseDevice_nonempty)
qed

text \<open>
  C9. The code loads an entry whose device type does not parse: \<open>constructor\<close> is
  not a member of the enumeration of device types, and the lookup finds the member of
  that name that every object inherits, so that the entry is loaded, with that
  inherited member as its device type, instead of making \<open>loadDevices\<close> throw.
\<close>

theorem inherited_device_type_is_loaded:
  "knownDeviceTypes ''constructor'' = None \<and>
   loadDevices knownFlashingMethods knownUserDefineKeys knownDeviceTypes [inheritedEntry] =
     Inr [\<lparr>device_id = ''DIY 900 TX'', device_name = ''DIY 900 TX'',
           device_category = ''DIY 900 MHz'',
           device_targets = [\<lparr>target_name = ''DIY_900_TX_via_UART'',
                               target_flashingMethod = Member (Str ''UART'')\<rparr>],
           device_userDefines = [Member (Str ''BINDING_PHRASE'')], device_wikiUrl = None,
           device_deviceType = Inherited ''constructor''\<rparr>]"
  by code_simp

end
